theory Spec2Isabelle
  imports
    Main
    "HOL-Library.Char_ord"
    "HOL-Library.List_Lexorder"
    "HOL-Library.Product_Lexorder"
    "HOL-Library.Multiset"
begin

section \<open>The choyxona order bot: data model\<close>

text \<open>
  The theory embeds \<^verbatim>\<open>menu.py\<close>, \<^verbatim>\<open>schemas.py\<close>, \<^verbatim>\<open>storage.py\<close> and the order
  handler of \<^verbatim>\<open>bot.py\<close>.

  Conventions of the embedding.
  \<^item> A \<^verbatim>\<open>Decimal\<close> amount is its numeric value. Every amount of the program is a whole
    number of so'm (menu prices are whole, quantities, discount and paid are ints, and
    the handler only adds, subtracts, multiplies and takes maxima), so the type is
    \<open>int\<close>; Python compares Decimals by value, which is equality on \<open>int\<close>.
  \<^item> Several classes share field names, so record fields carry a prefix where they
    would clash: \<open>menu_item_*\<close> for \<^verbatim>\<open>MenuItem\<close>, \<open>req_*\<close> for the two request classes,
    \<open>o_*\<close> and \<open>i_*\<close> for the columns of the tables \<^verbatim>\<open>orders\<close> and \<^verbatim>\<open>order_items\<close>.
    \<^verbatim>\<open>StoredOrder.id\<close> is \<open>order_id\<close>.
  \<^item> An exception is a value of type \<open>error\<close>; a function that can raise returns
    \<open>error + 'a\<close>.
\<close>

datatype error =
    ValueError string
  | ValidationError
  | StorageError

definition bind_result :: "error + 'a \<Rightarrow> ('a \<Rightarrow> error + 'b) \<Rightarrow> error + 'b" where
  "bind_result r f = (case r of Inl e \<Rightarrow> Inl e | Inr x \<Rightarrow> f x)"

text \<open>A comprehension or loop whose body can raise: the first exception ends it.\<close>

fun traverse :: "('a \<Rightarrow> error + 'b) \<Rightarrow> 'a list \<Rightarrow> error + 'b list" where
  "traverse f [] = Inr []"
| "traverse f (x # xs) =
     (case f x of
        Inl e \<Rightarrow> Inl e
      | Inr y \<Rightarrow> (case traverse f xs of Inl e \<Rightarrow> Inl e | Inr ys \<Rightarrow> Inr (y # ys)))"

subsection \<open>menu.py\<close>

record menu_item =
  menu_item_id :: string
  menu_item_name :: string
  menu_item_category :: string
  menu_item_price :: int

definition MENU :: "menu_item list" where
  "MENU =
    [\<lparr>menu_item_id = ''tea_green'', menu_item_name = ''Ko'k choy'',
      menu_item_category = ''Ichimliklar'', menu_item_price = 5000\<rparr>,
     \<lparr>menu_item_id = ''tea_black'', menu_item_name = ''Qora choy'',
      menu_item_category = ''Ichimliklar'', menu_item_price = 4000\<rparr>,
     \<lparr>menu_item_id = ''lepyoshka'', menu_item_name = ''Non'',
      menu_item_category = ''Qo'shimchalar'', menu_item_price = 3000\<rparr>,
     \<lparr>menu_item_id = ''somsa_lamb'', menu_item_name = ''Qo'y go'shtli somsa'',
      menu_item_category = ''Somsa'', menu_item_price = 12000\<rparr>,
     \<lparr>menu_item_id = ''somsa_beef'', menu_item_name = ''Mol go'shtli somsa'',
      menu_item_category = ''Somsa'', menu_item_price = 11000\<rparr>,
     \<lparr>menu_item_id = ''plov'', menu_item_name = ''Palov'',
      menu_item_category = ''Asosiy taomlar'', menu_item_price = 28000\<rparr>,
     \<lparr>menu_item_id = ''lagman'', menu_item_name = ''Lag'mon'',
      menu_item_category = ''Asosiy taomlar'', menu_item_price = 26000\<rparr>,
     \<lparr>menu_item_id = ''shashlik'', menu_item_name = ''Kabob'',
      menu_item_category = ''Asosiy taomlar'', menu_item_price = 18000\<rparr>,
     \<lparr>menu_item_id = ''salad'', menu_item_name = ''Achchiq-chuchuk'',
      menu_item_category = ''Salatlar'', menu_item_price = 9000\<rparr>,
     \<lparr>menu_item_id = ''ayran'', menu_item_name = ''Ayran'',
      menu_item_category = ''Ichimliklar'', menu_item_price = 7000\<rparr>]"

text \<open>
  \<^verbatim>\<open>MENU_BY_ID = {item.id: item for item in MENU}\<close>: the comprehension stores the
  items in order, a later item replacing an earlier one of the same id.
\<close>

definition menu_by_id :: "menu_item list \<Rightarrow> (string \<rightharpoonup> menu_item)" where
  "menu_by_id ms = fold (\<lambda>item m. m(menu_item_id item \<mapsto> item)) ms Map.empty"

definition MENU_BY_ID :: "string \<rightharpoonup> menu_item" where
  "MENU_BY_ID = menu_by_id MENU"

subsection \<open>schemas.py\<close>

record order_item_request =
  req_item_id :: string
  req_quantity :: int

record order_request =
  req_customer :: string
  req_items :: "order_item_request list"
  req_discount :: int
  req_paid :: int

record stored_order_item =
  menu_id :: string
  name :: string
  quantity :: int
  unit_price :: int
  subtotal :: int

record datetime =
  year :: nat
  month :: nat
  day :: nat
  hour :: nat
  minute :: nat
  second :: nat
  microsecond :: nat

record stored_order =
  order_id :: "int option"
  chat_id :: int
  username :: "string option"
  customer :: string
  discount :: int
  paid :: int
  total :: int
  change :: int
  balance :: int
  created_at :: datetime
  items :: "stored_order_item list"


text \<open>
  The payload of a submission, as \<^verbatim>\<open>OrderRequest.model_validate_json\<close> sees it once
  pydantic has decoded the text. Whether a JSON value is acceptable for a field's
  declared type is pydantic's decision (its JSON parser and its conversion rules);
  the payload type records the outcome for each declared field: the key is absent
  (\<open>Missing\<close>), its value is not acceptable for the declared type (\<open>Mistyped\<close>), or it
  is a value of the type (\<open>Present\<close>). Undeclared keys are ignored by the model class
  and have no place in the type. Everything the schema itself declares (required
  fields, defaults, \<^verbatim>\<open>ge\<close> bounds, the \<^verbatim>\<open>ensure_items_present\<close> validator) is in the
  functions below.
\<close>

datatype 'a field = Missing | Mistyped | Present 'a

datatype item_payload =
    NotAnItemObject
  | ItemObject "string field" "int field"

datatype payload =
    NotAnObject
  | PayloadObject "string field" "item_payload list field" "int field" "int field"

text \<open>
  \<^verbatim>\<open>OrderItemRequest\<close>: \<^verbatim>\<open>id: str = Field(...)\<close> and
  \<^verbatim>\<open>quantity: int = Field(..., ge=1)\<close>, both required.
\<close>

fun validate_item :: "item_payload \<Rightarrow> error + order_item_request" where
  "validate_item NotAnItemObject = Inl ValidationError"
| "validate_item (ItemObject (Present i) (Present q)) =
     (if q \<ge> 1 then Inr \<lparr>req_item_id = i, req_quantity = q\<rparr> else Inl ValidationError)"
| "validate_item (ItemObject _ _) = Inl ValidationError"

text \<open>A field with a default: \<^verbatim>\<open>Field(default, ge=bound)\<close>.\<close>

fun with_default :: "'a \<Rightarrow> ('a \<Rightarrow> bool) \<Rightarrow> 'a field \<Rightarrow> error + 'a" where
  "with_default d ok Missing = Inr d"
| "with_default d ok Mistyped = Inl ValidationError"
| "with_default d ok (Present v) = (if ok v then Inr v else Inl ValidationError)"

text \<open>\<^verbatim>\<open>items: Sequence[OrderItemRequest]\<close> has no default: the field is required.\<close>

fun validate_items :: "item_payload list field \<Rightarrow> error + order_item_request list" where
  "validate_items (Present xs) = traverse validate_item xs"
| "validate_items _ = Inl ValidationError"

text \<open>
  \<^verbatim>\<open>ensure_items_present\<close>, the \<^verbatim>\<open>model_validator(mode="after")\<close>: it runs on the
  validated model, and pydantic turns its \<^verbatim>\<open>ValueError\<close> into a validation error.
\<close>

definition ensure_items_present :: "order_request \<Rightarrow> error + order_request" where
  "ensure_items_present self =
     (if req_items self = [] then Inl ValidationError else Inr self)"

fun model_validate_json :: "payload \<Rightarrow> error + order_request" where
  "model_validate_json NotAnObject = Inl ValidationError"
| "model_validate_json (PayloadObject c its d p) =
     bind_result (with_default [] (\<lambda>_. True) c) (\<lambda>customer'.
     bind_result (validate_items its) (\<lambda>items'.
     bind_result (with_default 0 (\<lambda>v. v \<ge> 0) d) (\<lambda>discount'.
     bind_result (with_default 0 (\<lambda>v. v \<ge> 0) p) (\<lambda>paid'.
     ensure_items_present
       \<lparr>req_customer = customer', req_items = items',
        req_discount = discount', req_paid = paid'\<rparr>))))"

text \<open>
  \<^verbatim>\<open>parse_order_payload\<close>: a \<^verbatim>\<open>ValidationError\<close> is raised again as a \<^verbatim>\<open>ValueError\<close>
  (the text pydantic writes after the colon is not modelled).
\<close>

definition parse_order_payload :: "payload \<Rightarrow> error + order_request" where
  "parse_order_payload raw_data =
     (case model_validate_json raw_data of
        Inl _ \<Rightarrow> Inl (ValueError ''Invalid order payload'')
      | Inr r \<Rightarrow> Inr r)"

subsection \<open>Dates and times (Python's datetime module)\<close>


definition is_leap :: "nat \<Rightarrow> bool" where
  "is_leap y = (y mod 4 = 0 \<and> (y mod 100 \<noteq> 0 \<or> y mod 400 = 0))"

definition days_in_month :: "nat \<Rightarrow> nat \<Rightarrow> nat" where
  "days_in_month y m =
     (if m = 2 then (if is_leap y then 29 else 28)
      else if m = 4 \<or> m = 6 \<or> m = 9 \<or> m = 11 then 30 else 31)"

definition valid_date :: "nat \<Rightarrow> nat \<Rightarrow> nat \<Rightarrow> bool" where
  "valid_date y m d =
     (1 \<le> y \<and> y \<le> 9999 \<and> 1 \<le> m \<and> m \<le> 12 \<and> 1 \<le> d \<and> d \<le> days_in_month y m)"

definition valid_datetime :: "datetime \<Rightarrow> bool" where
  "valid_datetime dt =
     (valid_date (year dt) (month dt) (day dt) \<and> hour dt < 24 \<and> minute dt < 60 \<and>
      second dt < 60 \<and> microsecond dt < 1000000)"


text \<open>Chronological order is the lexicographic order of the fields.\<close>

definition chronological :: "datetime \<Rightarrow> nat \<times> nat \<times> nat \<times> nat \<times> nat \<times> nat \<times> nat" where
  "chronological dt =
     (year dt, month dt, day dt, hour dt, minute dt, second dt, microsecond dt)"



text \<open>
  \<^verbatim>\<open>isoformat()\<close> of a naive datetime: \<^verbatim>\<open>YYYY-MM-DDTHH:MM:SS\<close>, followed by
  \<^verbatim>\<open>.ffffff\<close> when the microsecond is not zero. \<open>zpad w n\<close> is \<open>n\<close> in \<open>w\<close> decimal
  digits with leading zeros (\<^verbatim>\<open>%0wd\<close> for \<open>n < 10 ^ w\<close>, which the fields of a
  datetime are).
\<close>

definition digit_char :: "nat \<Rightarrow> char" where
  "digit_char n = char_of (48 + n)"

fun zpad :: "nat \<Rightarrow> nat \<Rightarrow> string" where
  "zpad 0 n = []"
| "zpad (Suc w) n = zpad w (n div 10) @ [digit_char (n mod 10)]"

definition isoformat :: "datetime \<Rightarrow> string" where
  "isoformat dt =
     zpad 4 (year dt) @ ''-'' @ zpad 2 (month dt) @ ''-'' @ zpad 2 (day dt) @ ''T'' @
     zpad 2 (hour dt) @ '':'' @ zpad 2 (minute dt) @ '':'' @ zpad 2 (second dt) @
     (if microsecond dt = 0 then [] else ''.'' @ zpad 6 (microsecond dt))"




subsection \<open>Floats and SQLite's NUMERIC columns\<close>

text \<open>
  \<^verbatim>\<open>float(d)\<close> of a whole Decimal \<open>d\<close> is the IEEE 754 double nearest to it, ties to
  the even significand: a double keeps 53 significant bits. \<open>round_to_double m\<close> is
  that double's value for a magnitude \<open>m\<close>; from \<open>2 ^ 1024\<close> on the result is an
  infinity. The doubles that arise are therefore whole numbers or infinities.
\<close>

fun bit_length :: "nat \<Rightarrow> nat" where
  "bit_length n = (if n = 0 then 0 else Suc (bit_length (n div 2)))"

definition round_to_double :: "nat \<Rightarrow> nat" where
  "round_to_double m =
     (if bit_length m \<le> 53 then m
      else
        (let e = bit_length m - 53;
             q = m div 2 ^ e;
             r = m mod 2 ^ e;
             half = 2 ^ (e - 1)
         in (if r > half \<or> (r = half \<and> odd q) then q + 1 else q) * 2 ^ e))"

datatype pyfloat = Finite int | PosInf | NegInf

definition py_float :: "int \<Rightarrow> pyfloat" where
  "py_float d =
     (let m = round_to_double (nat \<bar>d\<bar>)
      in if m \<ge> 2 ^ 1024 then (if d < 0 then NegInf else PosInf)
         else Finite (if d < 0 then - int m else int m))"

text \<open>
  A cell of a column declared \<^verbatim>\<open>NUMERIC\<close>. SQLite's NUMERIC affinity stores a float
  that is exactly a whole number inside the signed 64-bit range as an INTEGER, any
  other float as a REAL.
\<close>

datatype sql_numeric = SqlInteger int | SqlReal pyfloat

fun numeric_affinity :: "pyfloat \<Rightarrow> sql_numeric" where
  "numeric_affinity (Finite v) =
     (if - (2 ^ 63) < v \<and> v < 2 ^ 63 then SqlInteger v else SqlReal (Finite v))"
| "numeric_affinity f = SqlReal f"


subsection \<open>storage.py\<close>

text \<open>
  The two tables. A row lists its columns in the order of \<^verbatim>\<open>CREATE TABLE\<close>; the
  \<^verbatim>\<open>TEXT\<close> column \<^verbatim>\<open>created_at\<close> holds the text \<^verbatim>\<open>isoformat\<close> wrote. Each table keeps
  its rows in rowid order, the order in which a \<^verbatim>\<open>SELECT\<close> without \<^verbatim>\<open>ORDER BY\<close>
  scans them. \<open>orders_seq\<close> and \<open>order_items_seq\<close> are the \<^verbatim>\<open>AUTOINCREMENT\<close> counters
  (the largest rowid each table has ever held).
\<close>

record order_row =
  o_id :: int
  o_chat_id :: int
  o_username :: "string option"
  o_customer :: string
  o_discount :: sql_numeric
  o_paid :: sql_numeric
  o_total :: sql_numeric
  o_change :: sql_numeric
  o_balance :: sql_numeric
  o_created_at :: string

record item_row =
  i_id :: int
  i_order_id :: int
  i_menu_id :: string
  i_name :: string
  i_quantity :: int
  i_unit_price :: sql_numeric
  i_subtotal :: sql_numeric

record database =
  orders :: "order_row list"
  order_items :: "item_row list"
  orders_seq :: int
  order_items_seq :: int

text \<open>\<^verbatim>\<open>__post_init__\<close> on a fresh file: both tables exist and are empty.\<close>

definition empty_database :: database where
  "empty_database = \<lparr>orders = [], order_items = [], orders_seq = 0, order_items_seq = 0\<rparr>"

text \<open>
  \<^verbatim>\<open>INTEGER PRIMARY KEY AUTOINCREMENT\<close>: the new rowid is one more than the largest
  rowid the table has ever held.
\<close>

definition next_rowid :: "int \<Rightarrow> int list \<Rightarrow> int" where
  "next_rowid seq ids = fold max ids seq + 1"

text \<open>The two \<^verbatim>\<open>INSERT\<close> statements of \<^verbatim>\<open>record_order\<close>, with the values they bind.\<close>

definition insert_order :: "database \<Rightarrow> stored_order \<Rightarrow> database \<times> int" where
  "insert_order tx order =
     (let rowid = next_rowid (orders_seq tx) (map o_id (orders tx));
          row = \<lparr>o_id = rowid,
                 o_chat_id = chat_id order,
                 o_username = username order,
                 o_customer = customer order,
                 o_discount = numeric_affinity (py_float (discount order)),
                 o_paid = numeric_affinity (py_float (paid order)),
                 o_total = numeric_affinity (py_float (total order)),
                 o_change = numeric_affinity (py_float (change order)),
                 o_balance = numeric_affinity (py_float (balance order)),
                 o_created_at = isoformat (created_at order)\<rparr>
      in (tx\<lparr>orders := orders tx @ [row], orders_seq := rowid\<rparr>, rowid))"

definition insert_item :: "database \<Rightarrow> int \<Rightarrow> stored_order_item \<Rightarrow> database" where
  "insert_item tx oid item =
     (let rowid = next_rowid (order_items_seq tx) (map i_id (order_items tx));
          row = \<lparr>i_id = rowid,
                 i_order_id = oid,
                 i_menu_id = menu_id item,
                 i_name = name item,
                 i_quantity = quantity item,
                 i_unit_price = numeric_affinity (py_float (unit_price item)),
                 i_subtotal = numeric_affinity (py_float (subtotal item))\<rparr>
      in tx\<lparr>order_items := order_items tx @ [row], order_items_seq := rowid\<rparr>)"

text \<open>
  \<^verbatim>\<open>record_order\<close> works inside one connection: the inserts go to the connection's
  open transaction \<open>tx\<close>, \<^verbatim>\<open>conn.commit()\<close> makes them the database, and \<^verbatim>\<open>_connect\<close>
  closes the connection in its \<^verbatim>\<open>finally\<close>, which discards a transaction that was
  not committed. Any statement can raise (a \<^verbatim>\<open>sqlite3.Error\<close>, or the binding's
  \<^verbatim>\<open>OverflowError\<close> for an integer outside 64 bits); \<open>fault\<close> is the number of the
  statement that does, counted from 0 for the insert of the order row, with the
  commit last, and \<open>None\<close> when none does. The function returns the database after
  the call and what the call returned or raised.
\<close>

fun insert_items :: "nat option \<Rightarrow> nat \<Rightarrow> int \<Rightarrow> database \<Rightarrow> stored_order_item list \<Rightarrow>
    error + database" where
  "insert_items fault k oid tx [] = Inr tx"
| "insert_items fault k oid tx (item # rest) =
     (if fault = Some k then Inl StorageError
      else insert_items fault (Suc k) oid (insert_item tx oid item) rest)"

definition record_order :: "nat option \<Rightarrow> database \<Rightarrow> stored_order \<Rightarrow>
    database \<times> (error + stored_order)" where
  "record_order fault db order =
     (if fault = Some 0 then (db, Inl StorageError)
      else
        (let (tx, oid) = insert_order db order
         in case insert_items fault 1 oid tx (items order) of
              Inl e \<Rightarrow> (db, Inl e)
            | Inr tx' \<Rightarrow>
                if fault = Some (Suc (length (items order))) then (db, Inl StorageError)
                else (tx', Inr (order\<lparr>order_id := Some oid\<rparr>))))"








subsection \<open>bot.py\<close>

definition unknown_item_message :: "string \<Rightarrow> string" where
  "unknown_item_message i = ''Menu item '' @ [CHR 0x27] @ i @ [CHR 0x27] @ '' mavjud emas''"

fun build_items_loop :: "order_item_request list \<Rightarrow> stored_order_item list \<Rightarrow> int \<Rightarrow>
    error + stored_order_item list \<times> int" where
  "build_items_loop [] its tot = Inr (its, tot)"
| "build_items_loop (item_req # rest) its tot =
     (case MENU_BY_ID (req_item_id item_req) of
        None \<Rightarrow> Inl (ValueError (unknown_item_message (req_item_id item_req)))
      | Some menu_item \<Rightarrow>
          (let st = menu_item_price menu_item * req_quantity item_req
           in build_items_loop rest
                (its @ [\<lparr>menu_id = menu_item_id menu_item,
                         name = menu_item_name menu_item,
                         quantity = req_quantity item_req,
                         unit_price = menu_item_price menu_item,
                         subtotal = st\<rparr>])
                (tot + st)))"

definition build_items :: "order_request \<Rightarrow> error + stored_order_item list \<times> int" where
  "build_items order = build_items_loop (req_items order) [] 0"

text \<open>
  \<^verbatim>\<open>str.strip()\<close>: whitespace is removed at both ends (the ASCII whitespace
  characters; a \<open>string\<close> here is a list of 8-bit characters).
\<close>

definition is_space :: "char \<Rightarrow> bool" where
  "is_space c = (let n = (of_char c :: nat) in n = 32 \<or> (9 \<le> n \<and> n \<le> 13) \<or> (28 \<le> n \<and> n \<le> 31))"

definition strip :: "string \<Rightarrow> string" where
  "strip s = rev (dropWhile is_space (rev (dropWhile is_space s)))"

text \<open>
  What \<^verbatim>\<open>handle_web_app\<close> reads from the update, and what comes of the call: it
  returns without a reply, replies with an error text, replies with the receipt of
  a stored order (the receipt is built from the stored order and the gross total;
  its wording is not modelled), or lets the exception of \<^verbatim>\<open>record_order\<close> pass.
\<close>

record update =
  effective_chat_id :: int
  effective_username :: "string option"
  web_app_data :: "payload option"

datatype outcome =
    NoReply
  | ErrorReply string
  | Receipt stored_order int
  | Raised error

text \<open>Lines 86 to 105 of the handler: the amounts and the order to store.\<close>

definition make_stored_order :: "update \<Rightarrow> datetime \<Rightarrow> order_request \<Rightarrow>
    stored_order_item list \<Rightarrow> int \<Rightarrow> stored_order" where
  "make_stored_order upd now order_payload its tot =
     (let discount0 = req_discount order_payload;
          discount' = (if discount0 > tot then tot else discount0);
          net_total = tot - discount';
          paid' = req_paid order_payload;
          change' = max (paid' - net_total) 0;
          balance' = max (net_total - paid') 0
      in \<lparr>order_id = None,
          chat_id = effective_chat_id upd,
          username = effective_username upd,
          customer = strip (req_customer order_payload),
          discount = discount',
          paid = paid',
          total = net_total,
          change = change',
          balance = balance',
          created_at = now,
          items = its\<rparr>)"

definition handle_web_app :: "nat option \<Rightarrow> datetime \<Rightarrow> database \<Rightarrow> update \<Rightarrow>
    database \<times> outcome" where
  "handle_web_app fault now storage upd =
     (case web_app_data upd of
        None \<Rightarrow> (storage, NoReply)
      | Some raw \<Rightarrow>
          (case parse_order_payload raw of
             Inl exc \<Rightarrow>
               (storage, ErrorReply ''Buyurtma ma'lumotida xatolik. Iltimos, qaytadan urinib ko'ring.'')
           | Inr order_payload \<Rightarrow>
               (case build_items order_payload of
                  Inl (ValueError msg) \<Rightarrow> (storage, ErrorReply msg)
                | Inl exc \<Rightarrow> (storage, Raised exc)
                | Inr (its, tot) \<Rightarrow>
                    (case record_order fault storage
                            (make_stored_order upd now order_payload its tot) of
                       (storage', Inl exc) \<Rightarrow> (storage', Raised exc)
                     | (storage', Inr stored) \<Rightarrow> (storage', Receipt stored tot)))))"

section \<open>Notions the properties are stated with\<close>

text \<open>
  The definitions of this section are not code of the program: they say, in the
  specification's terms, what the code is compared with.
\<close>


text \<open>
  A payload as the specification's validator accepts it, read literally: an object
  with a customer that is absent or text, a non-empty item sequence whose items have
  an id and a quantity of at least 1, and a discount and a paid amount that are
  non-negative integers.
\<close>

definition item_ok :: "item_payload \<Rightarrow> bool" where
  "item_ok i = (case i of ItemObject (Present k) (Present q) \<Rightarrow> 1 \<le> q | _ \<Rightarrow> False)"

definition well_formed_as_claimed :: "payload \<Rightarrow> bool" where
  "well_formed_as_claimed raw =
     (case raw of
        PayloadObject c (Present its) (Present d) (Present p) \<Rightarrow>
          c \<noteq> Mistyped \<and> its \<noteq> [] \<and> list_all item_ok its \<and> 0 \<le> d \<and> 0 \<le> p
      | _ \<Rightarrow> False)"

text \<open>
  The same with the defaults the schema declares: discount and paid may also be
  absent.
\<close>

definition amount_ok :: "int field \<Rightarrow> bool" where
  "amount_ok f = (case f of Missing \<Rightarrow> True | Mistyped \<Rightarrow> False | Present v \<Rightarrow> 0 \<le> v)"

definition well_formed_payload :: "payload \<Rightarrow> bool" where
  "well_formed_payload raw =
     (case raw of
        PayloadObject c (Present its) d p \<Rightarrow>
          c \<noteq> Mistyped \<and> its \<noteq> [] \<and> list_all item_ok its \<and> amount_ok d \<and> amount_ok p
      | _ \<Rightarrow> False)"

text \<open>The request a well-formed payload stands for: absent fields take their defaults.\<close>

definition field_or :: "'a \<Rightarrow> 'a field \<Rightarrow> 'a" where
  "field_or d f = (case f of Present v \<Rightarrow> v | _ \<Rightarrow> d)"

fun item_request :: "item_payload \<Rightarrow> order_item_request" where
  "item_request (ItemObject k q) = \<lparr>req_item_id = field_or [] k, req_quantity = field_or 0 q\<rparr>"
| "item_request NotAnItemObject = \<lparr>req_item_id = [], req_quantity = 0\<rparr>"

fun request_of :: "payload \<Rightarrow> order_request" where
  "request_of (PayloadObject c its d p) =
     \<lparr>req_customer = field_or [] c, req_items = map item_request (field_or [] its),
      req_discount = field_or 0 d, req_paid = field_or 0 p\<rparr>"
| "request_of NotAnObject =
     \<lparr>req_customer = [], req_items = [], req_discount = 0, req_paid = 0\<rparr>"

text \<open>
  The scenario of the specification: two green teas and one plov, with a discount and
  a paid amount, sent by one chat at a fixed time.
\<close>

definition scenario_raw :: "int \<Rightarrow> int \<Rightarrow> payload" where
  "scenario_raw d p =
     PayloadObject Missing
       (Present [ItemObject (Present ''tea_green'') (Present 2),
                 ItemObject (Present ''plov'') (Present 1)])
       (Present d) (Present p)"

definition scenario_request :: "int \<Rightarrow> int \<Rightarrow> order_request" where
  "scenario_request d p =
     \<lparr>req_customer = [],
      req_items = [\<lparr>req_item_id = ''tea_green'', req_quantity = 2\<rparr>,
                   \<lparr>req_item_id = ''plov'', req_quantity = 1\<rparr>],
      req_discount = d, req_paid = p\<rparr>"

definition scenario_items :: "stored_order_item list" where
  "scenario_items =
     [\<lparr>menu_id = ''tea_green'', name = ''Ko'k choy'', quantity = 2,
       unit_price = 5000, subtotal = 10000\<rparr>,
      \<lparr>menu_id = ''plov'', name = ''Palov'', quantity = 1,
       unit_price = 28000, subtotal = 28000\<rparr>]"

definition scenario_now :: datetime where
  "scenario_now =
     \<lparr>year = 2024, month = 1, day = 2, hour = 3, minute = 4, second = 5, microsecond = 7\<rparr>"

definition scenario_update :: "int \<Rightarrow> int \<Rightarrow> update" where
  "scenario_update d p =
     \<lparr>effective_chat_id = 42, effective_username = Some ''ali'',
      web_app_data = Some (scenario_raw d p)\<rparr>"

definition generic_error_reply :: string where
  "generic_error_reply = ''Buyurtma ma'lumotida xatolik. Iltimos, qaytadan urinib ko'ring.''"











text \<open>The columns of the rows \<^verbatim>\<open>record_order\<close> writes for an order, the rowids apart.\<close>

definition order_row_of :: "int \<Rightarrow> stored_order \<Rightarrow> order_row" where
  "order_row_of oid order =
     \<lparr>o_id = oid,
      o_chat_id = chat_id order,
      o_username = username order,
      o_customer = customer order,
      o_discount = numeric_affinity (py_float (discount order)),
      o_paid = numeric_affinity (py_float (paid order)),
      o_total = numeric_affinity (py_float (total order)),
      o_change = numeric_affinity (py_float (change order)),
      o_balance = numeric_affinity (py_float (balance order)),
      o_created_at = isoformat (created_at order)\<rparr>"

definition item_columns :: "item_row \<Rightarrow> int \<times> string \<times> string \<times> int \<times> sql_numeric \<times> sql_numeric" where
  "item_columns r =
     (i_order_id r, i_menu_id r, i_name r, i_quantity r, i_unit_price r, i_subtotal r)"

definition item_columns_of :: "int \<Rightarrow> stored_order_item \<Rightarrow>
    int \<times> string \<times> string \<times> int \<times> sql_numeric \<times> sql_numeric" where
  "item_columns_of oid item =
     (oid, menu_id item, name item, quantity item,
      numeric_affinity (py_float (unit_price item)),
      numeric_affinity (py_float (subtotal item)))"





section \<open>Properties\<close>

subsection \<open>The order calculator\<close>




lemma build_items_loop_unknown:
  "\<exists>r\<in>set rs. MENU_BY_ID (req_item_id r) = None \<Longrightarrow>
   \<exists>r\<in>set rs. MENU_BY_ID (req_item_id r) = None \<and>
      build_items_loop rs its tot = Inl (ValueError (unknown_item_message (req_item_id r)))"
  by (induction rs arbitrary: its tot) (auto simp: Let_def split: option.splits)


lemma MENU_BY_ID_plov:
  "MENU_BY_ID ''plov'' = Some \<lparr>menu_item_id = ''plov'', menu_item_name = ''Palov'',
      menu_item_category = ''Asosiy taomlar'', menu_item_price = 28000\<rparr>"
  by (simp add: MENU_BY_ID_def menu_by_id_def MENU_def)

lemma MENU_BY_ID_pizza: "MENU_BY_ID ''pizza'' = None"
  by (simp add: MENU_BY_ID_def menu_by_id_def MENU_def)



subsection \<open>The handler\<close>

lemma insert_items_no_fault:
  "insert_items None k oid tx its = Inr (foldl (\<lambda>t i. insert_item t oid i) tx its)"
  by (induction its arbitrary: k tx) auto

lemma record_order_no_fault:
  "record_order None db order =
     (foldl (\<lambda>t i. insert_item t (snd (insert_order db order)) i)
        (fst (insert_order db order)) (items order),
      Inr (order\<lparr>order_id := Some (snd (insert_order db order))\<rparr>))"
  by (simp add: record_order_def insert_items_no_fault split: prod.splits)









text \<open>
  Claim C6. When a validated submission contains an item id that is not in the
  catalogue, \<^verbatim>\<open>build_items\<close> raises the \<^verbatim>\<open>ValueError\<close> whose message names such an id
  (the first one in the request), the handler replies with that message, and the
  store is left as it was, whatever the storage layer would have done.
\<close>

theorem unknown_item_rejected:
  assumes "web_app_data upd = Some raw"
    and "parse_order_payload raw = Inr req"
    and "\<exists>r\<in>set (req_items req). MENU_BY_ID (req_item_id r) = None"
  shows "\<exists>r\<in>set (req_items req).
           MENU_BY_ID (req_item_id r) = None \<and>
           build_items req = Inl (ValueError (unknown_item_message (req_item_id r))) \<and>
           handle_web_app fault now storage upd =
             (storage, ErrorReply (unknown_item_message (req_item_id r)))"
proof -
  from build_items_loop_unknown[OF assms(3), of "[]" 0]
  obtain r where r: "r \<in> set (req_items req)" "MENU_BY_ID (req_item_id r) = None"
    "build_items req = Inl (ValueError (unknown_item_message (req_item_id r)))"
    by (auto simp: build_items_def)
  with assms(1,2) have "handle_web_app fault now storage upd =
             (storage, ErrorReply (unknown_item_message (req_item_id r)))"
    by (simp add: handle_web_app_def)
  with r show ?thesis by blast
qed

theorem unknown_item_rejected_witness:
  "handle_web_app None scenario_now empty_database
     \<lparr>effective_chat_id = 42, effective_username = None,
      web_app_data = Some (PayloadObject Missing
        (Present [ItemObject (Present ''plov'') (Present 1),
                  ItemObject (Present ''pizza'') (Present 2)]) Missing Missing)\<rparr> =
   (empty_database, ErrorReply ''Menu item 'pizza' mavjud emas'')"
proof -
  let ?raw = "PayloadObject Missing
        (Present [ItemObject (Present ''plov'') (Present 1),
                  ItemObject (Present ''pizza'') (Present 2)]) Missing Missing"
  let ?req = "\<lparr>req_customer = [],
      req_items = [\<lparr>req_item_id = ''plov'', req_quantity = 1\<rparr>,
                   \<lparr>req_item_id = ''pizza'', req_quantity = 2\<rparr>],
      req_discount = 0, req_paid = 0\<rparr>"
  let ?upd = "\<lparr>effective_chat_id = 42, effective_username = None,
      web_app_data = Some ?raw\<rparr>"
  have d: "web_app_data ?upd = Some ?raw" by simp
  have p: "parse_order_payload ?raw = Inr ?req"
    by (simp add: parse_order_payload_def bind_result_def ensure_items_present_def)
  have u: "\<exists>r\<in>set (req_items ?req). MENU_BY_ID (req_item_id r) = None"
    by (simp add: MENU_BY_ID_pizza)
  from unknown_item_rejected[OF d p u, of None scenario_now empty_database]
  show ?thesis
    by (auto simp: MENU_BY_ID_plov unknown_item_message_def)
qed

subsection \<open>The payload validator\<close>

lemma traverse_validate_item:
  "traverse validate_item its =
     (if list_all item_ok its then Inr (map item_request its) else Inl ValidationError)"
proof (induction its)
  case Nil
  then show ?case by simp
next
  case (Cons i its)
  show ?case
  proof (cases i)
    case NotAnItemObject
    then show ?thesis by (simp add: item_ok_def)
  next
    case (ItemObject k q)
    then show ?thesis using Cons
      by (cases k; cases q) (simp_all add: item_ok_def field_or_def)
  qed
qed

lemma with_default_amount:
  "with_default 0 (\<lambda>v. 0 \<le> v) f =
     (if amount_ok f then Inr (field_or 0 f) else Inl ValidationError)"
  by (cases f) (simp_all add: amount_ok_def field_or_def)

lemma with_default_customer:
  "with_default [] (\<lambda>_. True) c =
     (if c \<noteq> Mistyped then Inr (field_or [] c) else Inl ValidationError)"
  by (cases c) (simp_all add: field_or_def)

lemma model_validate_json_characterised:
  "model_validate_json raw =
     (if well_formed_payload raw then Inr (request_of raw) else Inl ValidationError)"
proof (cases raw)
  case NotAnObject
  then show ?thesis by (simp add: well_formed_payload_def)
next
  case (PayloadObject c its d p)
  show ?thesis
  proof (cases its)
    case (Present xs)
    with PayloadObject show ?thesis
      by (simp add: well_formed_payload_def bind_result_def with_default_amount
          with_default_customer traverse_validate_item ensure_items_present_def field_or_def)
  qed (simp_all add: PayloadObject well_formed_payload_def bind_result_def
      with_default_customer)
qed

text \<open>
  Claim C7, as amended. The validator succeeds exactly on the payloads that are an
  object with a customer that is absent or text, a non-empty item sequence whose
  items each have an id and a quantity of at least 1, and a discount and a paid
  amount that are each absent or a non-negative integer; it then yields the request
  with the defaults filled in (customer the empty string, discount and paid 0). On
  every other payload it fails with the \<^verbatim>\<open>ValueError\<close> that stands for the validation
  error, and the handler replies with the generic message and leaves the store
  untouched: neither the calculator nor the store is reached. In particular an empty
  item sequence is rejected, and a missing customer becomes the empty string.
\<close>

theorem parse_order_payload_characterised:
  "parse_order_payload raw =
     (if well_formed_payload raw then Inr (request_of raw)
      else Inl (ValueError ''Invalid order payload'')) \<and>
   (\<not> well_formed_payload raw \<longrightarrow>
      handle_web_app fault now storage (upd\<lparr>web_app_data := Some raw\<rparr>) =
        (storage, ErrorReply generic_error_reply)) \<and>
   \<not> well_formed_payload (PayloadObject c (Present []) d p) \<and>
   (well_formed_payload (PayloadObject Missing its d p) \<longrightarrow>
      (\<exists>r. parse_order_payload (PayloadObject Missing its d p) = Inr r \<and> req_customer r = []))"
proof -
  have eq: "parse_order_payload raw' =
     (if well_formed_payload raw' then Inr (request_of raw')
      else Inl (ValueError ''Invalid order payload''))" for raw'
    by (simp add: parse_order_payload_def model_validate_json_characterised)
  have "\<not> well_formed_payload raw \<longrightarrow>
      handle_web_app fault now storage (upd\<lparr>web_app_data := Some raw\<rparr>) =
        (storage, ErrorReply generic_error_reply)"
    by (simp add: handle_web_app_def eq generic_error_reply_def)
  moreover have "\<not> well_formed_payload (PayloadObject c (Present []) d p)"
    by (simp add: well_formed_payload_def)
  moreover have "well_formed_payload (PayloadObject Missing its d p) \<longrightarrow>
      (\<exists>r. parse_order_payload (PayloadObject Missing its d p) = Inr r \<and> req_customer r = [])"
    by (simp add: eq field_or_def)
  ultimately show ?thesis using eq[of raw] by blast
qed

theorem parse_order_payload_characterised_witness:
  "parse_order_payload (scenario_raw 0 40000) = Inr (scenario_request 0 40000) \<and>
   parse_order_payload (PayloadObject Missing (Present []) (Present 0) (Present 0)) =
     Inl (ValueError ''Invalid order payload'') \<and>
   handle_web_app None scenario_now empty_database
     \<lparr>effective_chat_id = 42, effective_username = None,
      web_app_data = Some (PayloadObject Missing (Present []) (Present 0) (Present 0))\<rparr> =
     (empty_database, ErrorReply generic_error_reply)"
proof -
  let ?bad = "PayloadObject Missing (Present []) (Present 0) (Present 0)"
  let ?upd = "\<lparr>effective_chat_id = 42, effective_username = None, web_app_data = None\<rparr>"
  have w: "well_formed_payload (scenario_raw 0 40000)"
    by (simp add: well_formed_payload_def scenario_raw_def item_ok_def amount_ok_def)
  have r: "request_of (scenario_raw 0 40000) = scenario_request 0 40000"
    by (simp add: scenario_raw_def scenario_request_def field_or_def)
  have b: "\<not> well_formed_payload ?bad"
    by (simp add: well_formed_payload_def)
  from parse_order_payload_characterised[of "scenario_raw 0 40000"] w r
  have "parse_order_payload (scenario_raw 0 40000) = Inr (scenario_request 0 40000)"
    by simp
  moreover from parse_order_payload_characterised[of ?bad None scenario_now empty_database ?upd] b
  have "parse_order_payload ?bad = Inl (ValueError ''Invalid order payload'')"
    and "handle_web_app None scenario_now empty_database (?upd\<lparr>web_app_data := Some ?bad\<rparr>) =
     (empty_database, ErrorReply generic_error_reply)"
    by simp_all
  ultimately show ?thesis by simp
qed

text \<open>
  The claim as it is worded asks for a discount and a paid amount in the payload.
  The schema gives both the default 0, so a payload without them is accepted.
\<close>

theorem parse_order_payload_counterexample:
  "parse_order_payload
     (PayloadObject Missing (Present [ItemObject (Present ''plov'') (Present 1)])
        Missing Missing) =
     Inr \<lparr>req_customer = [], req_items = [\<lparr>req_item_id = ''plov'', req_quantity = 1\<rparr>],
          req_discount = 0, req_paid = 0\<rparr> \<and>
   \<not> well_formed_as_claimed
     (PayloadObject Missing (Present [ItemObject (Present ''plov'') (Present 1)])
        Missing Missing)"
  by (simp add: parse_order_payload_def bind_result_def ensure_items_present_def
      well_formed_as_claimed_def)

subsection \<open>The daily summary\<close>


subsection \<open>Timestamps as text\<close>

lemma append_less_same_length:
  fixes u u' v v' :: "'a::linorder list"
  shows "length u = length u' \<Longrightarrow> (u @ v < u' @ v') = (u < u' \<or> (u = u' \<and> v < v'))"
  by (induction u u' rule: list_induct2) auto

lemma append_le_same_length:
  fixes u u' v v' :: "'a::linorder list"
  shows "length u = length u' \<Longrightarrow> (u @ v \<le> u' @ v') = (u < u' \<or> (u = u' \<and> v \<le> v'))"
  by (induction u u' rule: list_induct2) auto

lemma length_zpad [simp]: "length (zpad w n) = w"
  by (induction w arbitrary: n) simp_all

lemma of_char_digit_char: "n < 10 \<Longrightarrow> (of_char (digit_char n) :: nat) = 48 + n"
  by (simp add: digit_char_def)

lemma digit_char_less: "a < 10 \<Longrightarrow> b < 10 \<Longrightarrow> (digit_char a < digit_char b) = (a < b)"
  by (simp add: less_char_def of_char_digit_char)

lemma digit_char_eq: "a < 10 \<Longrightarrow> b < 10 \<Longrightarrow> (digit_char a = digit_char b) = (a = b)"
  by (metis digit_char_less less_irrefl linorder_neqE_nat)

lemma divmod_eq: "((m::nat) div 10 = n div 10 \<and> m mod 10 = n mod 10) = (m = n)"
  by (metis div_mult_mod_eq)

lemma divmod_less_aux:
  fixes a b c d :: nat
  assumes "b < 10" "d < 10"
  shows "(a < c \<or> (a = c \<and> b < d)) = (10 * a + b < 10 * c + d)"
  using assms by linarith

lemma divmod_less:
  "((m::nat) div 10 < n div 10 \<or> (m div 10 = n div 10 \<and> m mod 10 < n mod 10)) = (m < n)"
proof -
  have "(m div 10 < n div 10 \<or> (m div 10 = n div 10 \<and> m mod 10 < n mod 10)) =
        (10 * (m div 10) + m mod 10 < 10 * (n div 10) + n mod 10)"
    by (rule divmod_less_aux) simp_all
  then show ?thesis by (simp only: mult_div_mod_eq)
qed

lemma div10_bound: "(m::nat) < 10 ^ Suc w \<Longrightarrow> m div 10 < 10 ^ w"
  by (simp add: less_mult_imp_div_less mult.commute)

lemma zpad_eq: "m < 10 ^ w \<Longrightarrow> n < 10 ^ w \<Longrightarrow> (zpad w m = zpad w n) = (m = n)"
proof (induction w arbitrary: m n)
  case 0
  then show ?case by simp
next
  case (Suc w)
  from Suc.prems have "m div 10 < 10 ^ w" "n div 10 < 10 ^ w"
    by (simp_all only: div10_bound)
  from Suc.IH[OF this]
  have "(zpad (Suc w) m = zpad (Suc w) n) = (m div 10 = n div 10 \<and> m mod 10 = n mod 10)"
    by (simp add: digit_char_eq)
  then show ?case by (simp only: divmod_eq)
qed

lemma zpad_less: "m < 10 ^ w \<Longrightarrow> n < 10 ^ w \<Longrightarrow> (zpad w m < zpad w n) = (m < n)"
proof (induction w arbitrary: m n)
  case 0
  then show ?case by simp
next
  case (Suc w)
  from Suc.prems have b: "m div 10 < 10 ^ w" "n div 10 < 10 ^ w"
    by (simp_all only: div10_bound)
  have "(zpad (Suc w) m < zpad (Suc w) n) =
        (m div 10 < n div 10 \<or> (m div 10 = n div 10 \<and> m mod 10 < n mod 10))"
    by (simp add: append_less_same_length Suc.IH[OF b] zpad_eq[OF b] digit_char_less)
  then show ?case by (simp only: divmod_less)
qed

lemma zpad_le: "m < 10 ^ w \<Longrightarrow> n < 10 ^ w \<Longrightarrow> (zpad w m \<le> zpad w n) = (m \<le> n)"
  using zpad_less[of n w m] by (simp add: not_less[symmetric])

lemma zpad_append_le:
  "m < 10 ^ w \<Longrightarrow> n < 10 ^ w \<Longrightarrow>
   (zpad w m @ r \<le> zpad w n @ r') = (m < n \<or> (m = n \<and> r \<le> r'))"
  by (simp add: append_le_same_length zpad_less zpad_eq)

lemma pair_le_nat:
  fixes a b :: nat and x y :: "'a::linorder"
  shows "((a, x) \<le> (b, y)) = (a < b \<or> (a = b \<and> x \<le> y))"
  by auto

lemma days_in_month_le: "days_in_month y m \<le> 31"
  by (simp add: days_in_month_def)

lemma valid_datetime_bounds:
  assumes "valid_datetime dt"
  shows "year dt < 10 ^ 4" "month dt < 10 ^ 2" "day dt < 10 ^ 2" "hour dt < 10 ^ 2"
    "minute dt < 10 ^ 2" "second dt < 10 ^ 2" "microsecond dt < 10 ^ 6"
  using assms days_in_month_le[of "year dt" "month dt"]
  by (simp_all add: valid_datetime_def valid_date_def)

lemma isoformat_le:
  assumes "valid_datetime a" "valid_datetime b"
  shows "(isoformat a \<le> isoformat b) = (chronological a \<le> chronological b)"
proof -
  note ba = valid_datetime_bounds[OF assms(1)]
  note bb = valid_datetime_bounds[OF assms(2)]
  have us: "((if microsecond a = 0 then [] else CHR ''.'' # zpad 6 (microsecond a)) \<le>
             (if microsecond b = 0 then [] else CHR ''.'' # zpad 6 (microsecond b)))
            = (microsecond a \<le> microsecond b)"
    using ba(7) bb(7) by (simp add: zpad_le)
  show ?thesis
    unfolding isoformat_def chronological_def
    by (simp only: zpad_append_le[OF ba(1) bb(1)] zpad_append_le[OF ba(2) bb(2)]
        zpad_append_le[OF ba(3) bb(3)] zpad_append_le[OF ba(4) bb(4)]
        zpad_append_le[OF ba(5) bb(5)] zpad_append_le[OF ba(6) bb(6)]
        us pair_le_nat append_Cons append_Nil Cons_le_Cons less_irrefl simp_thms)
qed

lemma chronological_inject: "chronological a = chronological b \<Longrightarrow> a = b"
  by (cases a; cases b) (simp add: chronological_def)

lemma isoformat_inject:
  assumes "valid_datetime a" "valid_datetime b" "isoformat a = isoformat b"
  shows "a = b"
proof -
  from assms(3) isoformat_le[OF assms(1,2)] isoformat_le[OF assms(2,1)]
  have "chronological a \<le> chronological b" "chronological b \<le> chronological a"
    by simp_all
  then show ?thesis by (intro chronological_inject) (rule antisym)
qed







subsection \<open>Amounts through float and NUMERIC\<close>








subsection \<open>Recording an order\<close>

lemma insert_order_eq:
  "insert_order db order =
     (db\<lparr>orders := orders db @
            [order_row_of (next_rowid (orders_seq db) (map o_id (orders db))) order],
         orders_seq := next_rowid (orders_seq db) (map o_id (orders db))\<rparr>,
      next_rowid (orders_seq db) (map o_id (orders db)))"
  by (simp add: insert_order_def order_row_of_def Let_def)

lemma insert_item_effect:
  "orders (insert_item tx oid item) = orders tx \<and>
   (\<exists>row. order_items (insert_item tx oid item) = order_items tx @ [row] \<and>
          item_columns row = item_columns_of oid item)"
  by (simp add: insert_item_def Let_def item_columns_def item_columns_of_def)

lemma insert_items_effect:
  "insert_items fault k oid tx its = Inr tx' \<Longrightarrow>
   orders tx' = orders tx \<and>
   (\<exists>rows. order_items tx' = order_items tx @ rows \<and>
           map item_columns rows = map (item_columns_of oid) its)"
proof (induction its arbitrary: k tx)
  case Nil
  then show ?case by simp
next
  case (Cons item rest)
  from Cons.prems have nf: "fault \<noteq> Some k"
    and r: "insert_items fault (Suc k) oid (insert_item tx oid item) rest = Inr tx'"
    by (simp_all split: if_splits)
  from insert_item_effect[of tx oid item] obtain row where
    row: "orders (insert_item tx oid item) = orders tx"
      "order_items (insert_item tx oid item) = order_items tx @ [row]"
      "item_columns row = item_columns_of oid item"
    by blast
  from Cons.IH[OF r] obtain rows where
    rows: "orders tx' = orders (insert_item tx oid item)"
      "order_items tx' = order_items (insert_item tx oid item) @ rows"
      "map item_columns rows = map (item_columns_of oid) rest"
    by blast
  from row rows have "order_items tx' = order_items tx @ (row # rows)"
    and "map item_columns (row # rows) = map (item_columns_of oid) (item # rest)"
    by simp_all
  with row(1) rows(1) show ?case by (intro conjI exI[of _ "row # rows"]) simp_all
qed

lemma le_fold_max: "s \<le> fold max ids (s::int)"
proof (induction ids arbitrary: s)
  case Nil
  show ?case by simp
next
  case (Cons a ids)
  have "s \<le> max a s" by simp
  also have "\<dots> \<le> fold max ids (max a s)" by (rule Cons.IH)
  finally show ?case by simp
qed

lemma fold_max_ge: "x \<in> set ids \<Longrightarrow> x \<le> fold max ids (seq::int)"
proof (induction ids arbitrary: seq)
  case Nil
  then show ?case by simp
next
  case (Cons a ids)
  show ?case
  proof (cases "x = a")
    case True
    have "a \<le> max a seq" by simp
    also have "\<dots> \<le> fold max ids (max a seq)" by (rule le_fold_max)
    finally show ?thesis using True by simp
  next
    case False
    with Cons.prems have "x \<in> set ids" by simp
    from Cons.IH[OF this] show ?thesis by simp
  qed
qed

lemma next_rowid_fresh: "next_rowid seq ids \<notin> set ids"
proof
  assume "next_rowid seq ids \<in> set ids"
  from fold_max_ge[OF this, of seq] show False by (simp add: next_rowid_def)
qed

lemma record_order_unfold:
  "record_order fault db order =
     (if fault = Some 0 then (db, Inl StorageError)
      else case insert_items fault 1 (snd (insert_order db order)) (fst (insert_order db order))
                  (items order) of
             Inl e \<Rightarrow> (db, Inl e)
           | Inr tx' \<Rightarrow>
               if fault = Some (Suc (length (items order))) then (db, Inl StorageError)
               else (tx', Inr (order\<lparr>order_id := Some (snd (insert_order db order))\<rparr>)))"
  by (simp add: record_order_def case_prod_beta)

lemma record_order_failure:
  "record_order fault db order = (db', Inl e) \<Longrightarrow> db' = db"
  by (simp add: record_order_unfold split: if_splits sum.splits)

lemma record_order_returns:
  "record_order fault db order = (db', Inr stored) \<Longrightarrow>
   stored = order\<lparr>order_id := Some (snd (insert_order db order))\<rparr> \<and>
   insert_items fault 1 (snd (insert_order db order)) (fst (insert_order db order))
     (items order) = Inr db'"
  by (simp add: record_order_unfold split: if_splits sum.splits)

lemma record_order_success:
  assumes "record_order fault db order = (db', Inr stored)"
  shows "stored = order\<lparr>order_id := Some (next_rowid (orders_seq db) (map o_id (orders db)))\<rparr> \<and>
         orders db' = orders db @
           [order_row_of (next_rowid (orders_seq db) (map o_id (orders db))) order] \<and>
         (\<exists>rows. order_items db' = order_items db @ rows \<and>
            map item_columns rows =
              map (item_columns_of (next_rowid (orders_seq db) (map o_id (orders db))))
                (items order))"
proof -
  from record_order_returns[OF assms]
  have st: "stored = order\<lparr>order_id := Some (snd (insert_order db order))\<rparr>"
    and ins: "insert_items fault 1 (snd (insert_order db order)) (fst (insert_order db order))
        (items order) = Inr db'"
    by simp_all
  from insert_items_effect[OF ins] st show ?thesis
    by (simp add: insert_order_eq)
qed

text \<open>
  Claim C9. \<^verbatim>\<open>record_order\<close> either raises, and then the database is what it was
  before the call (no row of the order is kept), or it returns the order with the
  id the store generated, a rowid no stored order has, and every other field as
  in the argument, and then the database has gained exactly the order row and, in
  order, one item row for each item of the order. When no statement of the storage
  layer raises, it is the second. The argument is a value of the embedding, so it
  is the same after the call: the source builds the result with \<^verbatim>\<open>model_copy\<close> and
  assigns to no field of its argument.
\<close>

theorem record_order_all_or_none:
  "(case record_order fault db order of
      (db', Inl e) \<Rightarrow> db' = db
    | (db', Inr stored) \<Rightarrow>
        stored = order\<lparr>order_id := Some (next_rowid (orders_seq db) (map o_id (orders db)))\<rparr> \<and>
        next_rowid (orders_seq db) (map o_id (orders db)) \<notin> set (map o_id (orders db)) \<and>
        orders db' = orders db @
          [order_row_of (next_rowid (orders_seq db) (map o_id (orders db))) order] \<and>
        (\<exists>rows. order_items db' = order_items db @ rows \<and>
           map item_columns rows =
             map (item_columns_of (next_rowid (orders_seq db) (map o_id (orders db))))
               (items order))) \<and>
   (\<exists>db' stored. record_order None db order = (db', Inr stored))"
proof
  show "case record_order fault db order of
      (db', Inl e) \<Rightarrow> db' = db
    | (db', Inr stored) \<Rightarrow>
        stored = order\<lparr>order_id := Some (next_rowid (orders_seq db) (map o_id (orders db)))\<rparr> \<and>
        next_rowid (orders_seq db) (map o_id (orders db)) \<notin> set (map o_id (orders db)) \<and>
        orders db' = orders db @
          [order_row_of (next_rowid (orders_seq db) (map o_id (orders db))) order] \<and>
        (\<exists>rows. order_items db' = order_items db @ rows \<and>
           map item_columns rows =
             map (item_columns_of (next_rowid (orders_seq db) (map o_id (orders db))))
               (items order))"
  proof (cases "record_order fault db order")
    case (Pair db' res)
    show ?thesis
    proof (cases res)
      case (Inl e)
      with Pair record_order_failure[of fault db order db' e] show ?thesis by simp
    next
      case (Inr stored)
      with Pair record_order_success[of fault db order db' stored]
        next_rowid_fresh[of "orders_seq db" "map o_id (orders db)"]
      show ?thesis by simp
    qed
  qed
next
  show "\<exists>db' stored. record_order None db order = (db', Inr stored)"
    by (simp add: record_order_no_fault)
qed

theorem record_order_all_or_none_witness:
  "record_order (Some 2) empty_database
     (make_stored_order (scenario_update 0 40000) scenario_now
        (scenario_request 0 40000) scenario_items 38000) =
     (empty_database, Inl StorageError) \<and>
   snd (record_order None empty_database
     (make_stored_order (scenario_update 0 40000) scenario_now
        (scenario_request 0 40000) scenario_items 38000)) =
     Inr ((make_stored_order (scenario_update 0 40000) scenario_now
        (scenario_request 0 40000) scenario_items 38000)\<lparr>order_id := Some 1\<rparr>)"
proof -
  let ?order = "make_stored_order (scenario_update 0 40000) scenario_now
        (scenario_request 0 40000) scenario_items 38000"
  have its: "items ?order = scenario_items"
    by (simp add: make_stored_order_def Let_def)
  have "insert_items (Some 2) 1 oid tx scenario_items = Inl StorageError" for oid tx
    by (simp add: scenario_items_def)
  then have "snd (record_order (Some 2) empty_database ?order) = Inl StorageError"
    unfolding record_order_unfold its by simp
  with record_order_all_or_none[where fault = "Some 2" and db = empty_database and order = ?order]
  have "record_order (Some 2) empty_database ?order = (empty_database, Inl StorageError)"
    by (cases "record_order (Some 2) empty_database ?order") simp
  moreover have "next_rowid (orders_seq empty_database) (map o_id (orders empty_database)) = 1"
    by (simp add: next_rowid_def empty_database_def)
  with record_order_all_or_none[where fault = None and db = empty_database and order = ?order]
  have "snd (record_order None empty_database ?order) = Inr (?order\<lparr>order_id := Some 1\<rparr>)"
    by (cases "record_order None empty_database ?order") (auto split: sum.splits)
  ultimately show ?thesis by simp
qed

subsection \<open>Listing orders\<close>










subsection \<open>Recording, then listing\<close>





















subsection \<open>The accounting identity\<close>











subsection \<open>The daily summary\<close>



subsection \<open>The identity in the summary\<close>




end
